theory Spec2Isabelle
  imports Complex_Main "HOL-Library.Word"
begin

unbundle bit_operations_syntax

section \<open>The audio player venue of SOUL: data model\<close>

text \<open>
  The development follows \<^verbatim>\<open>soul_AudioPlayer.cpp\<close>: the class \<^verbatim>\<open>AudioPlayerVenue\<close>, its
  nested \<^verbatim>\<open>AudioPlayerSession\<close> and the two stream adapters. Objects are records, member
  functions take the object and return it updated, a failed \<^verbatim>\<open>SOUL_ASSERT\<close> and
  \<^verbatim>\<open>std::terminate\<close> are error values. The load measurer, the log, the status query and
  the rescans of the MIDI devices are left out: they write none of the fields kept here.
\<close>

datatype error = AssertionFailed | ProcessTerminated | DanglingSession

text \<open>\<^verbatim>\<open>Venue::Session::State\<close>.\<close>

datatype State = empty | loaded | linked | running

text \<open>
  A C++ \<^verbatim>\<open>double\<close> as far as comparisons go: every comparison with a NaN is false.
  The finite values are taken from the reals; no arithmetic is done on them here.
\<close>

datatype ieee = Finite real | PosInf | NegInf | NaN

fun ieee_less :: "ieee \<Rightarrow> ieee \<Rightarrow> bool" where
  "ieee_less NaN _ = False"
| "ieee_less _ NaN = False"
| "ieee_less (Finite a) (Finite b) = (a < b)"
| "ieee_less (Finite a) PosInf = True"
| "ieee_less (Finite a) NegInf = False"
| "ieee_less PosInf _ = False"
| "ieee_less NegInf (Finite b) = True"
| "ieee_less NegInf PosInf = True"
| "ieee_less NegInf NegInf = False"

type_synonym EndpointID = string

text \<open>
  Modelled from the spec: \<^verbatim>\<open>EndpointKind\<close>, \<^verbatim>\<open>isStream\<close>, \<^verbatim>\<open>isEvent\<close>, the sample types and
  \<^verbatim>\<open>EndpointDetails\<close> are declared outside the files at hand. The spec names the kinds
  stream and event and the sample types float32, float64 and int32; \<open>otherKind\<close> and
  \<open>otherType\<close> stand for whatever else the declarations allow, which is what the
  fall-through branches of the source are for.
\<close>

datatype EndpointKind = stream | event | otherKind

definition isStream :: "EndpointKind \<Rightarrow> bool" where
  "isStream k = (k = stream)"

definition isEvent :: "EndpointKind \<Rightarrow> bool" where
  "isEvent k = (k = event)"

datatype PrimitiveType = float32 | float64 | int32 | otherType

record SampleType =
  primitive :: PrimitiveType
  vectorSize :: nat

record EndpointDetails =
  endpointID :: EndpointID
  name :: string
  kind :: EndpointKind
  sampleTypes :: "SampleType list"
  strideBytes :: nat

text \<open>
  Modelled from the spec: \<^verbatim>\<open>findDetailsForID\<close> and \<^verbatim>\<open>getSingleSampleType\<close> are helpers of
  the endpoint declarations. The first returns the details published under an ID, the
  second the one admissible sample type; each is an internal error when there is none.
\<close>

fun findDetailsForID :: "EndpointDetails list \<Rightarrow> EndpointID \<Rightarrow> error + EndpointDetails" where
  "findDetailsForID [] i = Inl AssertionFailed"
| "findDetailsForID (e # es) i = (if endpointID e = i then Inr e else findDetailsForID es i)"

definition getSingleSampleType :: "EndpointDetails \<Rightarrow> error + SampleType" where
  "getSingleSampleType d = (case sampleTypes d of [t] \<Rightarrow> Inr t | _ \<Rightarrow> Inl AssertionFailed)"

text \<open>\<^verbatim>\<open>AudioPlayerVenue::EndpointInfo\<close>.\<close>

record EndpointInfo =
  details :: EndpointDetails
  audioChannelIndex :: "32 word"
  isMIDI :: bool

text \<open>
  \<^verbatim>\<open>Requirements\<close> is declared outside the files at hand. The constructor compares
  \<^verbatim>\<open>sampleRate\<close> with \<^verbatim>\<open>double\<close> literals and hands it to the device's \<^verbatim>\<open>open\<close>, which
  takes a \<^verbatim>\<open>double\<close> and an \<^verbatim>\<open>int\<close>; no arithmetic is done on the integers, so they
  are plain integers here.
\<close>

record Requirements =
  sampleRate :: ieee
  blockSize :: int
  numInputChannels :: int
  numOutputChannels :: int

text \<open>What the venue reads from an opened \<^verbatim>\<open>juce::AudioIODevice\<close>.\<close>

record AudioIODevice =
  activeInputChannels :: nat
  activeOutputChannels :: nat
  currentSampleRate :: ieee
  currentBufferSizeSamples :: int

record SampleRateAndBlockSize =
  rate :: ieee
  block :: "32 word"

definition noRateAndBlockSize :: SampleRateAndBlockSize where
  "noRateAndBlockSize = \<lparr>rate = Finite 0, block = 0\<rparr>"

text \<open>
  A \<^verbatim>\<open>DiscreteChannelSet\<close>: the channels from the first one of the view on, the number of
  channels, the frame offset and the number of frames. An input channel is its samples;
  an output channel pointer may be null.
\<close>

record 'c ChannelSet =
  channels :: "'c list"
  numChannels :: "32 word"
  frameOffset :: "32 word"
  numFrames :: "32 word"

definition getChannelSet :: "'c ChannelSet \<Rightarrow> 32 word \<Rightarrow> 32 word \<Rightarrow> 'c ChannelSet" where
  "getChannelSet c firstChannel numChans =
     c\<lparr>channels := drop (unat firstChannel) (channels c), numChannels := numChans\<rparr>"

text \<open>
  The two stream adapters. The callbacks they register with the performer's source and
  sink are run by the performer inside \<^verbatim>\<open>advance\<close>; the records hold what the session
  itself reads and writes.
\<close>

record AudioDeviceInputStream =
  inputEndpoint :: EndpointID
  inputSampleType :: SampleType
  inputStartChannelIndex :: "32 word"
  inputBufferAvailable :: bool
  inputChannelData :: "ieee list ChannelSet"
  inputBufferOffset :: "32 word"
  streamValueFrames :: "32 word"

record AudioDeviceOutputStream =
  outputEndpoint :: EndpointID
  outputSampleType :: SampleType
  outputStartChannelIndex :: "32 word"
  outputBufferAvailable :: bool
  outputChannelData :: "ieee list option ChannelSet"
  outputBufferOffset :: "32 word"

text \<open>
  A \<^verbatim>\<open>juce::MidiMessage\<close> holds at least one byte: the first byte and the bytes after it.
\<close>

datatype MidiMessage = MidiMessage (firstByte: "8 word") (moreBytes: "8 word list")

definition getRawDataSize :: "MidiMessage \<Rightarrow> int" where
  "getRawDataSize m = 1 + int (length (moreBytes m))"

text \<open>A \<^verbatim>\<open>juce::MidiBuffer\<close>: messages with their sample positions, in playing order.\<close>

type_synonym MidiBuffer = "(MidiMessage \<times> int) list"

text \<open>
  Modelled from the spec: the event queue \<^verbatim>\<open>InputEventQueue<EventFIFO<...>>\<close> is declared
  outside the files at hand. It is a bounded FIFO of pairs of a sample position and a
  packed event; when it is full the newest event is dropped.
\<close>

record MidiEventQueue =
  queueEndpoint :: EndpointID
  capacity :: nat
  fifo :: "(32 word \<times> int) list"

definition enqueueEvent :: "32 word \<Rightarrow> int \<Rightarrow> MidiEventQueue \<Rightarrow> MidiEventQueue" where
  "enqueueEvent t e q =
     (if length (fifo q) < capacity q then q\<lparr>fifo := fifo q @ [(t, e)]\<rparr> else q)"

text \<open>
  The collaborators of a session, as the operations the source calls on them: the
  \<^verbatim>\<open>Performer\<close> (a state of type \<open>'p\<close>, programs of type \<open>'g\<close>, link options of type
  \<open>'o\<close>), the \<^verbatim>\<open>PerformerFactory\<close> and the size of the event FIFO. \<open>getInputSource\<close>
  and \<open>getOutputSink\<close> say whether the performer returns a handle for the ID. The list
  of compile messages is only passed through by the session and is left out.
\<close>

record ('p, 'g, 'o) Performer =
  createPerformer :: 'p
  p_load :: "'g \<Rightarrow> 'p \<Rightarrow> bool \<times> 'p"
  p_link :: "'o \<Rightarrow> 'p \<Rightarrow> bool \<times> 'p"
  p_unload :: "'p \<Rightarrow> 'p"
  p_isLinked :: "'p \<Rightarrow> bool"
  p_getInputEndpoints :: "'p \<Rightarrow> EndpointDetails list"
  p_getOutputEndpoints :: "'p \<Rightarrow> EndpointDetails list"
  p_getInputSource :: "'p \<Rightarrow> EndpointID \<Rightarrow> bool"
  p_getOutputSink :: "'p \<Rightarrow> EndpointID \<Rightarrow> bool"
  p_prepare :: "32 word \<Rightarrow> 'p \<Rightarrow> 'p"
  p_advance :: "'p \<Rightarrow> 'p"
  eventFIFOSize :: nat

text \<open>
  \<^verbatim>\<open>AudioPlayerSession\<close>. \<open>stateChangeCallback\<close> says whether a callback is set;
  \<open>callbackCalls\<close> lists the arguments of its invocations, oldest first.
\<close>

record 'p AudioPlayerSession =
  performer :: 'p
  currentRateAndBlockSize :: SampleRateAndBlockSize
  audioDeviceInputStream :: "AudioDeviceInputStream option"
  audioDeviceOutputStream :: "AudioDeviceOutputStream option"
  midiEventQueue :: "MidiEventQueue option"
  stateChangeCallback :: bool
  callbackCalls :: "State list"
  state :: State

text \<open>
  \<^verbatim>\<open>AudioPlayerVenue\<close>. Sessions are known to the venue by address: \<open>activeSessions\<close>
  is the vector of pointers. \<open>midiCollector\<close> holds the messages waiting in the
  \<^verbatim>\<open>juce::MidiMessageCollector\<close>, when there is one. Times are milliseconds.
\<close>

record AudioPlayerVenue =
  requirements :: Requirements
  audioDevice :: "AudioIODevice option"
  midiCollector :: "MidiMessage list option"
  incomingMIDI :: MidiBuffer
  sourceEndpoints :: "EndpointInfo list"
  sinkEndpoints :: "EndpointInfo list"
  activeSessions :: "nat list"
  totalSamplesProcessed :: "64 word"
  audioCallbackCount :: "32 word"
  lastCallbackCount :: "32 word"
  lastCallbackCountChange :: int

definition numWarmUpSamples :: "64 word" where
  "numWarmUpSamples = 15000"

section \<open>The active-session set\<close>

text \<open>
  Modelled from the spec: \<^verbatim>\<open>contains\<close> and \<^verbatim>\<open>removeFirst\<close> are container helpers declared
  outside the files at hand: membership, and erasing the first element that satisfies a
  predicate.
\<close>

definition contains :: "'a list \<Rightarrow> 'a \<Rightarrow> bool" where
  "contains xs x = (x \<in> set xs)"

fun removeFirst :: "('a \<Rightarrow> bool) \<Rightarrow> 'a list \<Rightarrow> 'a list" where
  "removeFirst pred [] = []"
| "removeFirst pred (x # xs) = (if pred x then xs else x # removeFirst pred xs)"

definition startSession :: "nat \<Rightarrow> AudioPlayerVenue \<Rightarrow> bool \<times> AudioPlayerVenue" where
  "startSession s v =
     (True, if \<not> contains (activeSessions v) s
            then v\<lparr>activeSessions := activeSessions v @ [s]\<rparr> else v)"

definition stopSession :: "nat \<Rightarrow> AudioPlayerVenue \<Rightarrow> bool \<times> AudioPlayerVenue" where
  "stopSession s v =
     (True, v\<lparr>activeSessions := removeFirst (\<lambda>i. i = s) (activeSessions v)\<rparr>)"

section \<open>The session's life cycle\<close>

definition setState :: "State \<Rightarrow> 'p AudioPlayerSession \<Rightarrow> 'p AudioPlayerSession" where
  "setState newState s =
     (if state s \<noteq> newState
      then (let s1 = s\<lparr>state := newState\<rparr>
            in if stateChangeCallback s1
               then s1\<lparr>callbackCalls := callbackCalls s1 @ [state s1]\<rparr>
               else s1)
      else s)"


definition isRunning :: "'p AudioPlayerSession \<Rightarrow> bool" where
  "isRunning s = (state s = running)"

text \<open>
  The member functions that reach into the venue take the session's address \<open>this\<close>,
  the session and the venue, and return the last two updated.
\<close>

definition start ::
  "('p, 'g, 'o) Performer \<Rightarrow> nat \<Rightarrow> 'p AudioPlayerSession \<times> AudioPlayerVenue
     \<Rightarrow> error + bool \<times> 'p AudioPlayerSession \<times> AudioPlayerVenue" where
  "start P this sv =
     (case sv of (s, v) \<Rightarrow>
        if state s = linked
        then (if \<not> p_isLinked P (performer s) then Inl AssertionFailed
              else (case startSession this v of (ok, v1) \<Rightarrow>
                      (let s1 = (if ok then setState running s else s)
                       in Inr (isRunning s1, s1, v1))))
        else Inr (isRunning s, s, v))"

definition stop ::
  "nat \<Rightarrow> 'p AudioPlayerSession \<times> AudioPlayerVenue \<Rightarrow> 'p AudioPlayerSession \<times> AudioPlayerVenue" where
  "stop this sv =
     (case sv of (s, v) \<Rightarrow>
        if isRunning s
        then (case stopSession this v of (ok, v1) \<Rightarrow> (setState linked s, v1))
        else (s, v))"

definition unload ::
  "('p, 'g, 'o) Performer \<Rightarrow> nat \<Rightarrow> 'p AudioPlayerSession \<times> AudioPlayerVenue
     \<Rightarrow> 'p AudioPlayerSession \<times> AudioPlayerVenue" where
  "unload P this sv =
     (case stop this sv of (s1, v1) \<Rightarrow>
        (setState empty (s1\<lparr>performer := p_unload P (performer s1)\<rparr>), v1))"

definition load ::
  "('p, 'g, 'o) Performer \<Rightarrow> nat \<Rightarrow> 'g \<Rightarrow> 'p AudioPlayerSession \<times> AudioPlayerVenue
     \<Rightarrow> bool \<times> 'p AudioPlayerSession \<times> AudioPlayerVenue" where
  "load P this prog sv =
     (case unload P this sv of (s1, v1) \<Rightarrow>
        (case p_load P prog (performer s1) of (ok, p2) \<Rightarrow>
           (let s2 = s1\<lparr>performer := p2\<rparr>
            in if ok then (True, setState loaded s2, v1) else (False, s2, v1))))"


section \<open>Connecting endpoints\<close>

definition newAudioDeviceInputStream ::
  "EndpointDetails \<Rightarrow> 32 word \<Rightarrow> SampleRateAndBlockSize \<Rightarrow> error + AudioDeviceInputStream" where
  "newAudioDeviceInputStream d startChannel rateAndBlockSize =
     (case getSingleSampleType d of
        Inl e \<Rightarrow> Inl e
      | Inr t \<Rightarrow>
          if primitive t = float64 \<or> primitive t = float32 \<or> primitive t = int32
          then Inr \<lparr>inputEndpoint = endpointID d, inputSampleType = t,
                    inputStartChannelIndex = startChannel, inputBufferAvailable = False,
                    inputChannelData =
                      \<lparr>channels = [], numChannels = 0, frameOffset = 0, numFrames = 0\<rparr>,
                    inputBufferOffset = 0,
                    streamValueFrames = block rateAndBlockSize\<rparr>
          else Inl AssertionFailed)"

definition newAudioDeviceOutputStream ::
  "EndpointDetails \<Rightarrow> 32 word \<Rightarrow> error + AudioDeviceOutputStream" where
  "newAudioDeviceOutputStream d startChannel =
     (case getSingleSampleType d of
        Inl e \<Rightarrow> Inl e
      | Inr t \<Rightarrow>
          if primitive t = float64 \<or> primitive t = float32 \<or> primitive t = int32
          then Inr \<lparr>outputEndpoint = endpointID d, outputSampleType = t,
                    outputStartChannelIndex = startChannel, outputBufferAvailable = False,
                    outputChannelData =
                      \<lparr>channels = [], numChannels = 0, frameOffset = 0, numFrames = 0\<rparr>,
                    outputBufferOffset = 0\<rparr>
          else Inl AssertionFailed)"

definition connectInputEndpoint ::
  "('p, 'g, 'o) Performer \<Rightarrow> 32 word \<Rightarrow> bool \<Rightarrow> EndpointID \<Rightarrow> 'p AudioPlayerSession
     \<Rightarrow> error + bool \<times> 'p AudioPlayerSession" where
  "connectInputEndpoint P channelIndex midi inputID s =
     (if p_getInputSource P (performer s) inputID
      then (case findDetailsForID (p_getInputEndpoints P (performer s)) inputID of
              Inl e \<Rightarrow> Inl e
            | Inr d \<Rightarrow>
                if isStream (kind d)
                then (if midi then Inr (False, s)
                      else (case newAudioDeviceInputStream d channelIndex
                                   (currentRateAndBlockSize s) of
                              Inl e \<Rightarrow> Inl e
                            | Inr a \<Rightarrow> Inr (True, s\<lparr>audioDeviceInputStream := Some a\<rparr>)))
                else if isEvent (kind d)
                then (if \<not> midi then Inr (False, s)
                      else Inr (True, s\<lparr>midiEventQueue :=
                                  Some \<lparr>queueEndpoint = inputID,
                                        capacity = eventFIFOSize P, fifo = []\<rparr>\<rparr>))
                else Inr (False, s))
      else Inr (False, s))"

definition connectOutputEndpoint ::
  "('p, 'g, 'o) Performer \<Rightarrow> 32 word \<Rightarrow> bool \<Rightarrow> EndpointID \<Rightarrow> 'p AudioPlayerSession
     \<Rightarrow> error + bool \<times> 'p AudioPlayerSession" where
  "connectOutputEndpoint P channelIndex midi outputID s =
     (if p_getOutputSink P (performer s) outputID
      then (case findDetailsForID (p_getOutputEndpoints P (performer s)) outputID of
              Inl e \<Rightarrow> Inl e
            | Inr d \<Rightarrow>
                if isStream (kind d)
                then (if midi then Inr (False, s)
                      else (case newAudioDeviceOutputStream d channelIndex of
                              Inl e \<Rightarrow> Inl e
                            | Inr a \<Rightarrow> Inr (True, s\<lparr>audioDeviceOutputStream := Some a\<rparr>)))
                else Inr (False, s))
      else Inr (False, s))"

fun findEndpoint :: "EndpointInfo list \<Rightarrow> EndpointID \<Rightarrow> EndpointInfo option" where
  "findEndpoint [] i = None"
| "findEndpoint (e # es) i = (if endpointID (details e) = i then Some e else findEndpoint es i)"

definition convertEndpointList :: "EndpointInfo list \<Rightarrow> EndpointDetails list" where
  "convertEndpointList sourceList = map details sourceList"

definition getSourceEndpoints :: "AudioPlayerVenue \<Rightarrow> EndpointDetails list" where
  "getSourceEndpoints v = convertEndpointList (sourceEndpoints v)"

definition getSinkEndpoints :: "AudioPlayerVenue \<Rightarrow> EndpointDetails list" where
  "getSinkEndpoints v = convertEndpointList (sinkEndpoints v)"

text \<open>
  The venue's two connect functions take a \<^verbatim>\<open>Session&\<close> and cast it down; a session of
  another class makes the cast fail.
\<close>

datatype 'p Session = AudioPlayer "'p AudioPlayerSession" | OtherSession

definition connectSessionInputEndpoint ::
  "('p, 'g, 'o) Performer \<Rightarrow> 'p Session \<Rightarrow> EndpointID \<Rightarrow> EndpointID \<Rightarrow> AudioPlayerVenue
     \<Rightarrow> error + bool \<times> 'p Session \<times> AudioPlayerVenue" where
  "connectSessionInputEndpoint P session inputID venueSourceID v =
     (if audioDevice v \<noteq> None
      then (case session of
              OtherSession \<Rightarrow> Inr (False, session, v)
            | AudioPlayer audioSession \<Rightarrow>
                (case findEndpoint (sourceEndpoints v) venueSourceID of
                   None \<Rightarrow> Inr (False, session, v)
                 | Some venueEndpoint \<Rightarrow>
                     (case connectInputEndpoint P (audioChannelIndex venueEndpoint)
                             (isMIDI venueEndpoint) inputID audioSession of
                        Inl e \<Rightarrow> Inl e
                      | Inr (ok, s1) \<Rightarrow> Inr (ok, AudioPlayer s1, v))))
      else Inr (False, session, v))"

definition connectSessionOutputEndpoint ::
  "('p, 'g, 'o) Performer \<Rightarrow> 'p Session \<Rightarrow> EndpointID \<Rightarrow> EndpointID \<Rightarrow> AudioPlayerVenue
     \<Rightarrow> error + bool \<times> 'p Session \<times> AudioPlayerVenue" where
  "connectSessionOutputEndpoint P session outputID venueSinkID v =
     (if audioDevice v \<noteq> None
      then (case session of
              OtherSession \<Rightarrow> Inr (False, session, v)
            | AudioPlayer audioSession \<Rightarrow>
                (case findEndpoint (sinkEndpoints v) venueSinkID of
                   None \<Rightarrow> Inr (False, session, v)
                 | Some venueEndpoint \<Rightarrow>
                     (case connectOutputEndpoint P (audioChannelIndex venueEndpoint)
                             (isMIDI venueEndpoint) outputID audioSession of
                        Inl e \<Rightarrow> Inl e
                      | Inr (ok, s1) \<Rightarrow> Inr (ok, AudioPlayer s1, v))))
      else Inr (False, session, v))"

section \<open>MIDI\<close>

text \<open>
  \<^verbatim>\<open>rawData[1]\<close> and \<^verbatim>\<open>rawData[2]\<close> are read only under the length tests, so the
  indexing below stays in range. The result is the \<^verbatim>\<open>int\<close> the \<^verbatim>\<open>Value\<close> is built from.
\<close>

definition packMIDIMessageIntoInt :: "MidiMessage \<Rightarrow> error + int" where
  "packMIDIMessageIntoInt message =
     (let len = getRawDataSize message
      in if \<not> len < 4 then Inl AssertionFailed
         else (let m0 = push_bit 16 (ucast (firstByte message) :: 32 word);
                   m1 = (if len > 1 then m0 OR push_bit 8 (ucast (moreBytes message ! 0)) else m0);
                   m2 = (if len > 1 \<and> len > 2 then m1 OR ucast (moreBytes message ! 1) else m1)
               in Inr (sint m2)))"

text \<open>
  \<^verbatim>\<open>juce::MidiBuffer::addEvent\<close> keeps the buffer ordered by sample position and puts a new
  event after the ones already there for the same position.
\<close>

definition addEvent :: "MidiMessage \<Rightarrow> int \<Rightarrow> MidiBuffer \<Rightarrow> MidiBuffer" where
  "addEvent m pos buf =
     takeWhile (\<lambda>e. snd e \<le> pos) buf @ [(m, pos)] @ dropWhile (\<lambda>e. snd e \<le> pos) buf"

definition handleIncomingMidiMessage :: "MidiMessage \<Rightarrow> AudioPlayerVenue \<Rightarrow> AudioPlayerVenue" where
  "handleIncomingMidiMessage message v =
     (if getRawDataSize message < 4
      then (case midiCollector v of
              Some pending \<Rightarrow> v\<lparr>midiCollector := Some (pending @ [message])\<rparr>
            | None \<Rightarrow> v\<lparr>incomingMIDI := addEvent message 0 (incomingMIDI v)\<rparr>)
      else v)"

section \<open>The audio callback\<close>

definition setInputBuffer :: "ieee list ChannelSet \<Rightarrow> AudioDeviceInputStream \<Rightarrow> AudioDeviceInputStream" where
  "setInputBuffer newData a =
     a\<lparr>inputChannelData := getChannelSet newData (inputStartChannelIndex a) (numChannels newData),
       inputBufferAvailable := True,
       inputBufferOffset := 0\<rparr>"

definition setOutputBuffer ::
  "ieee list option ChannelSet \<Rightarrow> AudioDeviceOutputStream \<Rightarrow> AudioDeviceOutputStream" where
  "setOutputBuffer newData a =
     a\<lparr>outputBufferOffset := 0,
       outputChannelData := getChannelSet newData (outputStartChannelIndex a) (numChannels newData),
       outputBufferAvailable := True\<rparr>"

text \<open>The \<^verbatim>\<open>while\<close> loop of \<^verbatim>\<open>processBlock\<close> over the events of the buffer.\<close>

fun enqueueAll :: "MidiBuffer \<Rightarrow> MidiEventQueue \<Rightarrow> error + MidiEventQueue" where
  "enqueueAll [] q = Inr q"
| "enqueueAll (e # es) q =
     (case packMIDIMessageIntoInt (fst e) of
        Inl x \<Rightarrow> Inl x
      | Inr packed \<Rightarrow> enqueueAll es (enqueueEvent (word_of_int (snd e)) packed q))"

text \<open>The arguments the device passes to one audio callback.\<close>

record CallbackArgs =
  inputData :: "ieee list list"
  numInputs :: int
  outputData :: "ieee list option list"
  numOutputs :: int
  numSamples :: int

definition processBlock ::
  "('p, 'g, 'o) Performer \<Rightarrow> ieee list list \<Rightarrow> int \<Rightarrow> ieee list option list \<Rightarrow> int
     \<Rightarrow> MidiBuffer \<Rightarrow> 32 word \<Rightarrow> 'p AudioPlayerSession \<Rightarrow> error + 'p AudioPlayerSession" where
  "processBlock P inputChannels nIn outputChannels nOut midiEvents n s =
     (case (case midiEventQueue s of
              Some q \<Rightarrow> if midiEvents \<noteq> []
                        then (case enqueueAll midiEvents q of
                                Inl x \<Rightarrow> Inl x | Inr q1 \<Rightarrow> Inr (Some q1))
                        else Inr (Some q)
            | None \<Rightarrow> Inr None) of
        Inl x \<Rightarrow> Inl x
      | Inr q1 \<Rightarrow>
          (let s1 = s\<lparr>midiEventQueue := q1\<rparr>;
               s2 = s1\<lparr>audioDeviceInputStream :=
                         map_option (setInputBuffer
                           \<lparr>channels = inputChannels, numChannels = word_of_int nIn,
                            frameOffset = 0, numFrames = n\<rparr>) (audioDeviceInputStream s1)\<rparr>;
               s3 = s2\<lparr>audioDeviceOutputStream :=
                         map_option (setOutputBuffer
                           \<lparr>channels = outputChannels, numChannels = word_of_int nOut,
                            frameOffset = 0, numFrames = n\<rparr>) (audioDeviceOutputStream s2)\<rparr>
           in Inr (s3\<lparr>performer := p_advance P (p_prepare P n (performer s3))\<rparr>)))"

text \<open>
  The sessions live in a store, from addresses to sessions; the loops over
  \<open>activeSessions\<close> follow the pointers. A pointer to a session that is no longer
  there is undefined behaviour in the source and \<open>DanglingSession\<close> here.
\<close>

type_synonym 'p store = "nat \<rightharpoonup> 'p AudioPlayerSession"

fun processAll ::
  "('p, 'g, 'o) Performer \<Rightarrow> CallbackArgs \<Rightarrow> ieee list option list \<Rightarrow> MidiBuffer \<Rightarrow> nat list
     \<Rightarrow> 'p store \<Rightarrow> error + 'p store" where
  "processAll P a out midi [] st = Inr st"
| "processAll P a out midi (p # ps) st =
     (case st p of
        None \<Rightarrow> Inl DanglingSession
      | Some s \<Rightarrow>
          (case processBlock P (inputData a) (numInputs a) out (numOutputs a) midi
                  (word_of_int (numSamples a)) s of
             Inl x \<Rightarrow> Inl x
           | Inr s1 \<Rightarrow> processAll P a out midi ps (st(p \<mapsto> s1))))"

definition clearChannel :: "int \<Rightarrow> ieee list \<Rightarrow> ieee list" where
  "clearChannel n chan = replicate (min (nat n) (length chan)) (Finite 0) @ drop (nat n) chan"

definition clearOutputs :: "int \<Rightarrow> int \<Rightarrow> ieee list option list \<Rightarrow> ieee list option list" where
  "clearOutputs nOut n chans =
     map (map_option (clearChannel n)) (take (nat nOut) chans) @ drop (nat nOut) chans"

text \<open>
  \<open>stamp\<close> is the sample position the \<^verbatim>\<open>juce::MidiMessageCollector\<close> gives a waiting
  message when \<^verbatim>\<open>removeNextBlockOfMessages\<close> moves it into \<open>incomingMIDI\<close>.
\<close>

definition audioDeviceIOCallback ::
  "('p, 'g, 'o) Performer \<Rightarrow> (MidiMessage \<Rightarrow> int) \<Rightarrow> CallbackArgs \<Rightarrow> AudioPlayerVenue \<times> 'p store
     \<Rightarrow> error + AudioPlayerVenue \<times> 'p store" where
  "audioDeviceIOCallback P stamp a vs =
     (case vs of (v, st) \<Rightarrow>
        (let v1 = v\<lparr>audioCallbackCount := audioCallbackCount v + 1\<rparr>;
             out = clearOutputs (numOutputs a) (numSamples a) (outputData a);
             v2 = (case midiCollector v1 of
                     Some pending \<Rightarrow>
                       v1\<lparr>incomingMIDI := map (\<lambda>m. (m, stamp m)) pending,
                          midiCollector := Some []\<rparr>
                   | None \<Rightarrow> v1)
         in (case (if totalSamplesProcessed v2 > numWarmUpSamples
                   then processAll P a out (incomingMIDI v2) (activeSessions v2) st
                   else Inr st) of
               Inl x \<Rightarrow> Inl x
             | Inr st1 \<Rightarrow>
                 Inr (v2\<lparr>incomingMIDI := [],
                         totalSamplesProcessed :=
                           totalSamplesProcessed v2 + word_of_int (numSamples a)\<rparr>, st1))))"

definition updateDeviceProperties :: "AudioIODevice \<Rightarrow> 'p AudioPlayerSession \<Rightarrow> 'p AudioPlayerSession" where
  "updateDeviceProperties device s =
     s\<lparr>currentRateAndBlockSize :=
         \<lparr>rate = currentSampleRate device,
          block = word_of_int (currentBufferSizeSamples device)\<rparr>\<rparr>"

definition prepareToPlay :: "AudioIODevice \<Rightarrow> 'p AudioPlayerSession \<Rightarrow> 'p AudioPlayerSession" where
  "prepareToPlay device s = updateDeviceProperties device s"

definition deviceStopped :: "'p AudioPlayerSession \<Rightarrow> 'p AudioPlayerSession" where
  "deviceStopped s = s\<lparr>currentRateAndBlockSize := noRateAndBlockSize\<rparr>"

fun forEachActive ::
  "('p AudioPlayerSession \<Rightarrow> 'p AudioPlayerSession) \<Rightarrow> nat list \<Rightarrow> 'p store \<Rightarrow> error + 'p store" where
  "forEachActive f [] st = Inr st"
| "forEachActive f (p # ps) st =
     (case st p of
        None \<Rightarrow> Inl DanglingSession
      | Some s \<Rightarrow> forEachActive f ps (st(p \<mapsto> f s)))"

definition audioDeviceAboutToStart ::
  "AudioIODevice \<Rightarrow> AudioPlayerVenue \<times> 'p store \<Rightarrow> error + AudioPlayerVenue \<times> 'p store" where
  "audioDeviceAboutToStart device vs =
     (case vs of (v, st) \<Rightarrow>
        (let v1 = v\<lparr>lastCallbackCount := 0, audioCallbackCount := 0,
                    midiCollector := map_option (\<lambda>pending. []) (midiCollector v)\<rparr>
         in (case forEachActive (prepareToPlay device) (activeSessions v1) st of
               Inl x \<Rightarrow> Inl x
             | Inr st1 \<Rightarrow> Inr (v1, st1))))"

definition audioDeviceStopped ::
  "AudioPlayerVenue \<times> 'p store \<Rightarrow> error + AudioPlayerVenue \<times> 'p store" where
  "audioDeviceStopped vs =
     (case vs of (v, st) \<Rightarrow>
        (case forEachActive deviceStopped (activeSessions v) st of
           Inl x \<Rightarrow> Inl x
         | Inr st1 \<Rightarrow> Inr (v, st1)))"

section \<open>The watchdog\<close>

text \<open>\<open>now\<close> is what \<^verbatim>\<open>juce::Time::getCurrentTime()\<close> returns, in milliseconds.\<close>

definition checkForStalledProcessor :: "int \<Rightarrow> AudioPlayerVenue \<Rightarrow> error + AudioPlayerVenue" where
  "checkForStalledProcessor now v =
     (let v1 = (if lastCallbackCount v \<noteq> audioCallbackCount v
                then v\<lparr>lastCallbackCount := audioCallbackCount v,
                       lastCallbackCountChange := now\<rparr>
                else v)
      in if lastCallbackCount v1 \<noteq> 0 \<and> now > lastCallbackCountChange v1 + 2000
         then Inl ProcessTerminated
         else Inr v1)"

text \<open>
  \<^verbatim>\<open>timerCallback\<close> first rescans the MIDI devices, which touches none of the fields kept
  here, and then runs the watchdog.
\<close>

definition timerCallback :: "int \<Rightarrow> AudioPlayerVenue \<Rightarrow> error + AudioPlayerVenue" where
  "timerCallback now v = checkForStalledProcessor now v"

text \<open>
  What the device and the timer do to a venue, one event after the other. An error ends
  the run: nothing happens after \<^verbatim>\<open>std::terminate\<close>.
\<close>

datatype DeviceEvent = AudioCallback "MidiMessage \<Rightarrow> int" CallbackArgs | TimerTick int

fun deviceEvent ::
  "('p, 'g, 'o) Performer \<Rightarrow> DeviceEvent \<Rightarrow> AudioPlayerVenue \<times> 'p store
     \<Rightarrow> error + AudioPlayerVenue \<times> 'p store" where
  "deviceEvent P (AudioCallback stamp a) vs = audioDeviceIOCallback P stamp a vs"
| "deviceEvent P (TimerTick now) vs =
     (case timerCallback now (fst vs) of Inl x \<Rightarrow> Inl x | Inr v1 \<Rightarrow> Inr (v1, snd vs))"

fun runEvents ::
  "('p, 'g, 'o) Performer \<Rightarrow> DeviceEvent list \<Rightarrow> AudioPlayerVenue \<times> 'p store
     \<Rightarrow> error + AudioPlayerVenue \<times> 'p store" where
  "runEvents P [] vs = Inr vs"
| "runEvents P (e # es) vs =
     (case deviceEvent P e vs of Inl x \<Rightarrow> Inl x | Inr vs1 \<Rightarrow> runEvents P es vs1)"

fun isAudioCallback :: "DeviceEvent \<Rightarrow> bool" where
  "isAudioCallback (AudioCallback stamp a) = True"
| "isAudioCallback (TimerTick now) = False"

definition callbacksIn :: "DeviceEvent list \<Rightarrow> nat" where
  "callbacksIn es = length (filter isAudioCallback es)"

section \<open>Construction\<close>

text \<open>
  The device layer as the constructor sees it. \<open>None\<close>: no device type yields a device.
  Otherwise the function is the device's \<^verbatim>\<open>open\<close>, from the four arguments of the call
  to the opened device, or \<open>None\<close> when \<^verbatim>\<open>open\<close> reports an error.
\<close>

record OpenRequest =
  requestedInputs :: int
  requestedOutputs :: int
  requestedSampleRate :: ieee
  requestedBlockSize :: int

type_synonym AudioDriver = "(OpenRequest \<Rightarrow> AudioIODevice option) option"

definition getVectorType :: "nat \<Rightarrow> SampleType" where
  "getVectorType n = \<lparr>primitive = float32, vectorSize = n\<rparr>"

definition addEndpoint ::
  "EndpointInfo list \<Rightarrow> EndpointKind \<Rightarrow> EndpointID \<Rightarrow> string \<Rightarrow> SampleType \<Rightarrow> 32 word \<Rightarrow> bool
     \<Rightarrow> EndpointInfo list" where
  "addEndpoint list k i n sampleType channelIndex midi =
     list @ [\<lparr>details = \<lparr>endpointID = i, name = n, kind = k, sampleTypes = [sampleType],
                          strideBytes = 0\<rparr>,
              audioChannelIndex = channelIndex, isMIDI = midi\<rparr>]"

definition openAudioDevice :: "AudioDriver \<Rightarrow> AudioPlayerVenue \<Rightarrow> error + AudioPlayerVenue" where
  "openAudioDevice driver v =
     (case driver of
        None \<Rightarrow> Inl AssertionFailed
      | Some openDevice \<Rightarrow>
          (case openDevice \<lparr>requestedInputs = numInputChannels (requirements v),
                            requestedOutputs = numOutputChannels (requirements v),
                            requestedSampleRate = sampleRate (requirements v),
                            requestedBlockSize = blockSize (requirements v)\<rparr> of
             None \<Rightarrow> Inl AssertionFailed
           | Some device \<Rightarrow>
               (let nIn = activeInputChannels device;
                    nOut = activeOutputChannels device;
                    src1 = (if nIn > 0
                            then addEndpoint (sourceEndpoints v) stream ''defaultIn'' ''defaultIn''
                                   (getVectorType nIn) 0 False
                            else sourceEndpoints v);
                    snk1 = (if nOut > 0
                            then addEndpoint (sinkEndpoints v) stream ''defaultOut'' ''defaultOut''
                                   (getVectorType nOut) 0 False
                            else sinkEndpoints v);
                    src2 = addEndpoint src1 event ''defaultMidiIn'' ''defaultMidiIn''
                             \<lparr>primitive = int32, vectorSize = 1\<rparr> 0 True;
                    snk2 = addEndpoint snk1 event ''defaultMidiOut'' ''defaultMidiOut''
                             \<lparr>primitive = int32, vectorSize = 1\<rparr> 0 True
                in Inr (v\<lparr>audioDevice := Some device,
                          sourceEndpoints := src2, sinkEndpoints := snk2\<rparr>))))"

text \<open>
  The constructor. \<open>bela\<close> is the build flag \<^verbatim>\<open>JUCE_BELA\<close>: such a build has no MIDI
  collector.
\<close>

definition AudioPlayerVenue_new :: "AudioDriver \<Rightarrow> bool \<Rightarrow> Requirements \<Rightarrow> error + AudioPlayerVenue" where
  "AudioPlayerVenue_new driver bela r =
     (let r1 = (if ieee_less (sampleRate r) (Finite 1000)
                   \<or> ieee_less (Finite (48000 * 8)) (sampleRate r)
                then r\<lparr>sampleRate := Finite 0\<rparr> else r);
          r2 = (if blockSize r1 < 1 \<or> blockSize r1 > 2048
                then r1\<lparr>blockSize := 0\<rparr> else r1)
      in openAudioDevice driver
           \<lparr>requirements = r2, audioDevice = None,
            midiCollector = (if bela then None else Some []),
            incomingMIDI = [], sourceEndpoints = [], sinkEndpoints = [],
            activeSessions = [], totalSamplesProcessed = 0, audioCallbackCount = 0,
            lastCallbackCount = 0, lastCallbackCountChange = 0\<rparr>)"


section \<open>A test performer and a test venue\<close>

text \<open>
  A performer to run the definitions on: it accepts the program \<open>True\<close> and no other,
  links whatever is loaded, and counts its calls of \<^verbatim>\<open>advance\<close>. It has a stereo
  float input \<open>''in''\<close>, a stereo float output \<open>''out''\<close> and an event input
  \<open>''midi''\<close>.
\<close>

record TestPerformer =
  hasProgram :: bool
  isLinkedNow :: bool
  advances :: nat

definition testInputs :: "EndpointDetails list" where
  "testInputs =
     [\<lparr>endpointID = ''in'', name = ''in'', kind = stream,
       sampleTypes = [\<lparr>primitive = float32, vectorSize = 2\<rparr>], strideBytes = 0\<rparr>,
      \<lparr>endpointID = ''midi'', name = ''midi'', kind = event,
       sampleTypes = [\<lparr>primitive = int32, vectorSize = 1\<rparr>], strideBytes = 0\<rparr>]"

definition testOutputs :: "EndpointDetails list" where
  "testOutputs =
     [\<lparr>endpointID = ''out'', name = ''out'', kind = stream,
       sampleTypes = [\<lparr>primitive = float32, vectorSize = 2\<rparr>], strideBytes = 0\<rparr>]"

definition testPerformer :: "(TestPerformer, bool, unit) Performer" where
  "testPerformer =
     \<lparr>createPerformer = \<lparr>hasProgram = False, isLinkedNow = False, advances = 0\<rparr>,
      p_load = (\<lambda>prog p. (prog, p\<lparr>hasProgram := prog, isLinkedNow := False\<rparr>)),
      p_link = (\<lambda>opts p. (hasProgram p, p\<lparr>isLinkedNow := hasProgram p\<rparr>)),
      p_unload = (\<lambda>p. p\<lparr>hasProgram := False, isLinkedNow := False\<rparr>),
      p_isLinked = isLinkedNow,
      p_getInputEndpoints = (\<lambda>p. testInputs),
      p_getOutputEndpoints = (\<lambda>p. testOutputs),
      p_getInputSource = (\<lambda>p i. i = ''in'' \<or> i = ''midi''),
      p_getOutputSink = (\<lambda>p i. i = ''out''),
      p_prepare = (\<lambda>n p. p),
      p_advance = (\<lambda>p. p\<lparr>advances := Suc (advances p)\<rparr>),
      eventFIFOSize = 4\<rparr>"

text \<open>A device layer that opens a stereo device at the rate and block size it is asked for.\<close>

definition testDriver :: AudioDriver where
  "testDriver =
     Some (\<lambda>q. Some \<lparr>activeInputChannels = 2, activeOutputChannels = 2,
                      currentSampleRate = requestedSampleRate q,
                      currentBufferSizeSamples = requestedBlockSize q\<rparr>)"

definition testRequirements :: Requirements where
  "testRequirements =
     \<lparr>sampleRate = Finite 44100, blockSize = 512, numInputChannels = 2, numOutputChannels = 2\<rparr>"

text \<open>The venue the constructor builds from these, written out.\<close>

definition testVenue :: AudioPlayerVenue where
  "testVenue =
     \<lparr>requirements = testRequirements,
      audioDevice = Some \<lparr>activeInputChannels = 2, activeOutputChannels = 2,
                          currentSampleRate = Finite 44100, currentBufferSizeSamples = 512\<rparr>,
      midiCollector = Some [],
      incomingMIDI = [],
      sourceEndpoints =
        [\<lparr>details = \<lparr>endpointID = ''defaultIn'', name = ''defaultIn'', kind = stream,
                      sampleTypes = [\<lparr>primitive = float32, vectorSize = 2\<rparr>], strideBytes = 0\<rparr>,
          audioChannelIndex = 0, isMIDI = False\<rparr>,
         \<lparr>details = \<lparr>endpointID = ''defaultMidiIn'', name = ''defaultMidiIn'', kind = event,
                      sampleTypes = [\<lparr>primitive = int32, vectorSize = 1\<rparr>], strideBytes = 0\<rparr>,
          audioChannelIndex = 0, isMIDI = True\<rparr>],
      sinkEndpoints =
        [\<lparr>details = \<lparr>endpointID = ''defaultOut'', name = ''defaultOut'', kind = stream,
                      sampleTypes = [\<lparr>primitive = float32, vectorSize = 2\<rparr>], strideBytes = 0\<rparr>,
          audioChannelIndex = 0, isMIDI = False\<rparr>,
         \<lparr>details = \<lparr>endpointID = ''defaultMidiOut'', name = ''defaultMidiOut'', kind = event,
                      sampleTypes = [\<lparr>primitive = int32, vectorSize = 1\<rparr>], strideBytes = 0\<rparr>,
          audioChannelIndex = 0, isMIDI = True\<rparr>],
      activeSessions = [],
      totalSamplesProcessed = 0,
      audioCallbackCount = 0,
      lastCallbackCount = 0,
      lastCallbackCountChange = 0\<rparr>"

text \<open>A session of the test venue in a given state, with a state-change callback set.\<close>

definition testSession :: "State \<Rightarrow> TestPerformer AudioPlayerSession" where
  "testSession st =
     \<lparr>performer = \<lparr>hasProgram = (st \<noteq> empty), isLinkedNow = (st = linked \<or> st = running),
                    advances = 0\<rparr>,
      currentRateAndBlockSize = \<lparr>rate = Finite 44100, block = 512\<rparr>,
      audioDeviceInputStream = None, audioDeviceOutputStream = None, midiEventQueue = None,
      stateChangeCallback = True, callbackCalls = [], state = st\<rparr>"

definition testArgs :: CallbackArgs where
  "testArgs =
     \<lparr>inputData = [[Finite 1, Finite 2], [Finite 3, Finite 4]], numInputs = 2,
      outputData = [Some [Finite 5, Finite 6], Some [Finite 7, Finite 8]], numOutputs = 2,
      numSamples = 2\<rparr>"

section \<open>Notions the properties are stated with\<close>

text \<open>The byte at an index of a message, and zero past its end.\<close>

definition rawDataOrZero :: "MidiMessage \<Rightarrow> nat \<Rightarrow> 8 word" where
  "rawDataOrZero m i =
     (if i = 0 then firstByte m
      else if i - 1 < length (moreBytes m) then moreBytes m ! (i - 1) else 0)"

text \<open>
  A session endpoint and a venue endpoint that do not go together: a stream endpoint
  with a MIDI endpoint of the venue, or an event endpoint with one that is not MIDI.
\<close>

definition kindMismatch :: "EndpointDetails \<Rightarrow> EndpointInfo \<Rightarrow> bool" where
  "kindMismatch d e = (kind d = stream \<and> isMIDI e \<or> kind d = event \<and> \<not> isMIDI e)"

text \<open>The ranges of the constructor: 1000 to 384000 for the rate, 1 to 2048 for the block.\<close>

fun sampleRateInRange :: "ieee \<Rightarrow> bool" where
  "sampleRateInRange (Finite x) = (1000 \<le> x \<and> x \<le> 384000)"
| "sampleRateInRange PosInf = False"
| "sampleRateInRange NegInf = False"
| "sampleRateInRange NaN = False"

definition blockSizeInRange :: "int \<Rightarrow> bool" where
  "blockSizeInRange n = (1 \<le> n \<and> n \<le> 2048)"

text \<open>
  A running session of the test venue with a MIDI queue, and the venue with that session
  active at address 1 and a note-on waiting in the collector.
\<close>

definition listeningSession :: "TestPerformer AudioPlayerSession" where
  "listeningSession =
     (testSession running)\<lparr>midiEventQueue :=
        Some \<lparr>queueEndpoint = ''midi'', capacity = 4, fifo = []\<rparr>\<rparr>"

definition playingVenue :: AudioPlayerVenue where
  "playingVenue =
     testVenue\<lparr>activeSessions := [1], midiCollector := Some [MidiMessage 0x90 [0x40, 0x7F]]\<rparr>"

section \<open>Properties of the session's life cycle\<close>

lemma setState_state: "state (setState n s) = n"
  by (simp add: setState_def Let_def)

lemma setState_calls:
  "callbackCalls (setState n s) =
     callbackCalls s @ (if stateChangeCallback s \<and> state s \<noteq> n then [n] else [])"
  by (simp add: setState_def Let_def)

lemma setState_same: "state s = n \<Longrightarrow> setState n s = s"
  by (simp add: setState_def)

lemma set_removeFirst_subset: "set (removeFirst pred xs) \<subseteq> set xs"
  by (induction xs) auto

lemma distinct_removeFirst: "distinct xs \<Longrightarrow> distinct (removeFirst pred xs)"
proof (induction xs)
  case Nil
  then show ?case by simp
next
  case (Cons x xs)
  then show ?case using set_removeFirst_subset [of pred xs] by auto
qed

lemma removeFirst_eq_gone: "distinct xs \<Longrightarrow> s \<notin> set (removeFirst (\<lambda>i. i = s) xs)"
  by (induction xs) auto

lemma removeFirst_eq_absent: "s \<notin> set xs \<Longrightarrow> removeFirst (\<lambda>i. i = s) xs = xs"
  by (induction xs) auto

lemma removeFirst_eq_twice:
  "distinct xs \<Longrightarrow>
     removeFirst (\<lambda>i. i = s) (removeFirst (\<lambda>i. i = s) xs) = removeFirst (\<lambda>i. i = s) xs"
  by (simp add: removeFirst_eq_absent removeFirst_eq_gone)

lemma stop_performer: "performer (fst (stop this (s, v))) = performer s"
  by (simp add: stop_def setState_def Let_def split: prod.splits)

lemma stop_venue:
  "snd (stop this (s, v)) =
     (if state s = running
      then v\<lparr>activeSessions := removeFirst (\<lambda>i. i = this) (activeSessions v)\<rparr> else v)"
  by (simp add: stop_def isRunning_def stopSession_def)

lemma unload_venue: "snd (unload P this sv) = snd (stop this sv)"
  by (simp add: unload_def split: prod.splits)

lemma load_venue: "snd (snd (load P this prog sv)) = snd (stop this sv)"
  by (simp add: load_def unload_def Let_def split: prod.splits)

lemma stop_not_registered:
  assumes "distinct (activeSessions v)"
    and "contains (activeSessions v) this \<longrightarrow> state s = running"
  shows "\<not> contains (activeSessions (snd (stop this (s, v)))) this"
  using assms by (auto simp: stop_venue contains_def removeFirst_eq_gone)

text \<open>
  C1, as the code has it. \<^verbatim>\<open>start()\<close> returns \<^verbatim>\<open>isRunning()\<close>, so it returns true when
  the session was linked and also when it was already running. From every state but
  \<open>linked\<close> the call changes neither the session nor the venue; from \<open>linked\<close> the
  session becomes \<open>running\<close> and is in the venue's active sessions. The source asserts
  that the performer of a linked session reports \<^verbatim>\<open>isLinked()\<close>, which is the hypothesis.
\<close>

theorem start_true_iff_linked_or_running:
  assumes "state s = linked \<longrightarrow> p_isLinked P (performer s)"
  shows "\<exists>s' v'. start P this (s, v) = Inr (state s = linked \<or> state s = running, s', v')
          \<and> (state s \<noteq> linked \<longrightarrow> s' = s \<and> v' = v)
          \<and> (state s = linked \<longrightarrow> state s' = running \<and> contains (activeSessions v') this)"
  using assms
  by (auto simp: start_def startSession_def isRunning_def contains_def Let_def setState_state)

theorem start_true_iff_linked_or_running_witness:
  "state (testSession linked) = linked
   \<and> p_isLinked testPerformer (performer (testSession linked))
   \<and> start testPerformer 1 (testSession linked, testVenue)
       = Inr (True, (testSession linked)\<lparr>callbackCalls := [running], state := running\<rparr>,
              testVenue\<lparr>activeSessions := [1]\<rparr>)
   \<and> start testPerformer 1 (testSession loaded, testVenue)
       = Inr (False, testSession loaded, testVenue)"
  using start_true_iff_linked_or_running [of "testSession linked" testPerformer 1 testVenue]
  by (simp add: start_def startSession_def isRunning_def contains_def setState_def
      testSession_def testPerformer_def testVenue_def)

text \<open>
  C1 as stated fails: a session that is already running is not \<open>linked\<close>, and
  \<^verbatim>\<open>start()\<close> returns true for it.
\<close>

theorem start_true_when_already_running:
  "state (testSession running) \<noteq> linked
   \<and> start testPerformer 1 (testSession running, testVenue\<lparr>activeSessions := [1]\<rparr>)
       = Inr (True, testSession running, testVenue\<lparr>activeSessions := [1]\<rparr>)"
  by (simp add: start_def isRunning_def testSession_def)

text \<open>
  C2, as the code has it. \<^verbatim>\<open>stop()\<close> takes a running session to \<open>linked\<close> and leaves
  every other state as it is; \<^verbatim>\<open>unload()\<close> ends in \<open>empty\<close> from every state.
\<close>

theorem stop_reverts_running_unload_empties:
  "state (fst (stop this (s, v))) = (if state s = running then linked else state s)
   \<and> state (fst (unload P this (s, v))) = empty"
  by (simp add: stop_def unload_def isRunning_def stopSession_def setState_state
      split: prod.splits)

theorem stop_reverts_running_unload_empties_witness:
  "state (fst (stop 1 (testSession running, testVenue\<lparr>activeSessions := [1]\<rparr>))) = linked
   \<and> state (fst (stop 1 (testSession loaded, testVenue))) = loaded
   \<and> state (fst (unload testPerformer 1 (testSession running, testVenue\<lparr>activeSessions := [1]\<rparr>)))
       = empty"
  using stop_reverts_running_unload_empties
          [of 1 "testSession running" "testVenue\<lparr>activeSessions := [1]\<rparr>" testPerformer]
        stop_reverts_running_unload_empties [of 1 "testSession loaded" testVenue testPerformer]
  by (simp add: testSession_def)

text \<open>
  C2 as stated fails: \<^verbatim>\<open>stop()\<close> on a session that is \<open>empty\<close> is a no-op, so the
  session is \<open>empty\<close> after it, not \<open>linked\<close>.
\<close>

theorem stop_leaves_empty_session_empty:
  "state (fst (stop 1 (testSession empty, testVenue))) = empty
   \<and> state (fst (stop 1 (testSession empty, testVenue))) \<noteq> linked"
  by (simp add: stop_def isRunning_def testSession_def)

text \<open>
  C7. \<^verbatim>\<open>load()\<close> unloads first: the performer's \<^verbatim>\<open>load\<close> is run on the unloaded
  performer. It returns what the performer's \<^verbatim>\<open>load\<close> returns. When that is true the
  session is \<open>loaded\<close>, otherwise it is \<open>empty\<close>. Provided the venue lists each session
  at most once and lists this one only while it runs, the session is not among the
  active sessions afterwards, whatever the outcome.
\<close>

theorem load_unloads_then_follows_performer:
  "fst (load P this prog (s, v)) = fst (p_load P prog (p_unload P (performer s)))
   \<and> performer (fst (snd (load P this prog (s, v))))
       = snd (p_load P prog (p_unload P (performer s)))
   \<and> state (fst (snd (load P this prog (s, v))))
       = (if fst (p_load P prog (p_unload P (performer s))) then loaded else empty)
   \<and> (distinct (activeSessions v) \<and> (contains (activeSessions v) this \<longrightarrow> state s = running)
        \<longrightarrow> \<not> contains (activeSessions (snd (snd (load P this prog (s, v))))) this)"
proof -
  obtain s1 v1 where u: "unload P this (s, v) = (s1, v1)"
    by (cases "unload P this (s, v)")
  have p1: "performer s1 = p_unload P (performer s)"
    using u stop_performer [of this s v]
    by (auto simp: unload_def setState_def Let_def split: prod.splits)
  have st1: "state s1 = empty"
    using u by (auto simp: unload_def setState_state split: prod.splits)
  obtain ok p2 where l: "p_load P prog (p_unload P (performer s)) = (ok, p2)"
    by (cases "p_load P prog (p_unload P (performer s))")
  have a: "fst (load P this prog (s, v)) = ok"
    using u p1 l by (simp add: load_def Let_def)
  have b: "performer (fst (snd (load P this prog (s, v)))) = p2"
    using u p1 l by (simp add: load_def Let_def setState_def)
  have c: "state (fst (snd (load P this prog (s, v)))) = (if ok then loaded else empty)"
    using u p1 l st1 by (simp add: load_def Let_def setState_state)
  have d: "distinct (activeSessions v) \<and> (contains (activeSessions v) this \<longrightarrow> state s = running)
        \<longrightarrow> \<not> contains (activeSessions (snd (snd (load P this prog (s, v))))) this"
    using stop_not_registered [of v this s] by (simp add: load_venue)
  show ?thesis using a b c d l by simp
qed

theorem load_unloads_then_follows_performer_witness:
  "distinct (activeSessions (testVenue\<lparr>activeSessions := [1]\<rparr>))
   \<and> contains (activeSessions (testVenue\<lparr>activeSessions := [1]\<rparr>)) 1
   \<and> state (testSession running) = running
   \<and> load testPerformer 1 False (testSession running, testVenue\<lparr>activeSessions := [1]\<rparr>)
       = (False, (testSession empty)\<lparr>callbackCalls := [linked, empty]\<rparr>, testVenue)
   \<and> load testPerformer 1 True (testSession running, testVenue\<lparr>activeSessions := [1]\<rparr>)
       = (True, (testSession loaded)\<lparr>callbackCalls := [linked, empty, loaded]\<rparr>, testVenue)"
  using load_unloads_then_follows_performer
          [of testPerformer 1 False "testSession running" "testVenue\<lparr>activeSessions := [1]\<rparr>"]
  by (simp add: load_def unload_def stop_def stopSession_def isRunning_def setState_def
      contains_def testSession_def testPerformer_def testVenue_def)

text \<open>
  C8. When the active sessions hold no session twice, they still do after
  \<^verbatim>\<open>startSession\<close> and after \<^verbatim>\<open>stopSession\<close>; starting a session that is registered and
  stopping one that is not leave the venue as it is; doing either twice is doing it once.
\<close>

theorem activeSessions_at_most_once:
  assumes "distinct (activeSessions v)"
  shows "distinct (activeSessions (snd (startSession s v)))
   \<and> distinct (activeSessions (snd (stopSession s v)))
   \<and> (contains (activeSessions v) s \<longrightarrow> snd (startSession s v) = v)
   \<and> (\<not> contains (activeSessions v) s \<longrightarrow> snd (stopSession s v) = v)
   \<and> startSession s (snd (startSession s v)) = startSession s v
   \<and> stopSession s (snd (stopSession s v)) = stopSession s v
   \<and> contains (activeSessions (snd (startSession s v))) s
   \<and> \<not> contains (activeSessions (snd (stopSession s v))) s"
proof -
  have a: "distinct (activeSessions (snd (startSession s v)))"
    using assms by (simp add: startSession_def contains_def)
  have b: "distinct (activeSessions (snd (stopSession s v)))"
    using assms by (simp add: stopSession_def distinct_removeFirst)
  have c: "contains (activeSessions v) s \<longrightarrow> snd (startSession s v) = v"
    by (simp add: startSession_def)
  have d: "\<not> contains (activeSessions v) s \<longrightarrow> snd (stopSession s v) = v"
    by (simp add: stopSession_def contains_def removeFirst_eq_absent)
  have e: "startSession s (snd (startSession s v)) = startSession s v"
    by (simp add: startSession_def contains_def)
  have f: "stopSession s (snd (stopSession s v)) = stopSession s v"
    using assms by (simp add: stopSession_def removeFirst_eq_twice)
  have g: "contains (activeSessions (snd (startSession s v))) s"
    by (simp add: startSession_def contains_def)
  have h: "\<not> contains (activeSessions (snd (stopSession s v))) s"
    using assms by (simp add: stopSession_def contains_def removeFirst_eq_gone)
  show ?thesis using a b c d e f g h by blast
qed

theorem activeSessions_at_most_once_witness:
  "distinct (activeSessions (testVenue\<lparr>activeSessions := [1, 2]\<rparr>))
   \<and> contains (activeSessions (testVenue\<lparr>activeSessions := [1, 2]\<rparr>)) 2
   \<and> startSession 2 (testVenue\<lparr>activeSessions := [1, 2]\<rparr>)
       = (True, testVenue\<lparr>activeSessions := [1, 2]\<rparr>)
   \<and> startSession 3 (testVenue\<lparr>activeSessions := [1, 2]\<rparr>)
       = (True, testVenue\<lparr>activeSessions := [1, 2, 3]\<rparr>)
   \<and> stopSession 1 (testVenue\<lparr>activeSessions := [1, 2]\<rparr>)
       = (True, testVenue\<lparr>activeSessions := [2]\<rparr>)
   \<and> \<not> contains (activeSessions (testVenue\<lparr>activeSessions := [1, 2]\<rparr>)) 3
   \<and> stopSession 3 (testVenue\<lparr>activeSessions := [1, 2]\<rparr>)
       = (True, testVenue\<lparr>activeSessions := [1, 2]\<rparr>)"
  using activeSessions_at_most_once [of "testVenue\<lparr>activeSessions := [1, 2]\<rparr>" 2]
  by (simp add: startSession_def stopSession_def contains_def)

text \<open>
  The session operations reach the active sessions only through \<^verbatim>\<open>startSession\<close> and
  \<^verbatim>\<open>stopSession\<close>, and the audio callback only reads them: none of them makes a
  session appear twice.
\<close>

lemma operations_keep_distinct:
  assumes "distinct (activeSessions v)"
  shows "(case start P this (s, v) of
            Inl e \<Rightarrow> True | Inr r \<Rightarrow> distinct (activeSessions (snd (snd r))))
   \<and> distinct (activeSessions (snd (stop this (s, v))))
   \<and> distinct (activeSessions (snd (unload P this (s, v))))
   \<and> distinct (activeSessions (snd (snd (load P this prog (s, v)))))"
  using assms
  by (auto simp: start_def startSession_def contains_def Let_def stop_venue unload_venue
      load_venue distinct_removeFirst split: sum.splits)

lemma audioDeviceIOCallback_activeSessions:
  "audioDeviceIOCallback P stamp a (v, st) = Inr (v', st') \<Longrightarrow>
     activeSessions v' = activeSessions v"
  by (auto simp: audioDeviceIOCallback_def Let_def split: option.splits sum.splits if_splits)








section \<open>Properties of the MIDI path\<close>

lemma sint_pack3:
  "sint (push_bit 16 (ucast (a :: 8 word) :: 32 word) OR push_bit 8 (ucast (b :: 8 word))
         OR ucast (c :: 8 word))
     = push_bit 16 (uint a) OR push_bit 8 (uint b) OR uint c"
proof (rule bit_eqI)
  fix n
  have a: "bit a k \<Longrightarrow> k < 8" for k using bit_imp_le_length [of a k] by simp
  have b: "bit b k \<Longrightarrow> k < 8" for k using bit_imp_le_length [of b k] by simp
  have c: "bit c k \<Longrightarrow> k < 8" for k using bit_imp_le_length [of c k] by simp
  show "bit (sint (push_bit 16 (ucast a :: 32 word) OR push_bit 8 (ucast b) OR ucast c)) n
        = bit (push_bit 16 (uint a) OR push_bit 8 (uint b) OR uint c) n"
    by (cases "n < 32") (auto simp add: bit_simps dest: a b c)
qed

lemma sint_pack2:
  "sint (push_bit 16 (ucast (a :: 8 word) :: 32 word) OR push_bit 8 (ucast (b :: 8 word)))
     = push_bit 16 (uint a) OR push_bit 8 (uint b)"
  using sint_pack3 [of a b 0] by simp

lemma sint_pack1:
  "sint (push_bit 16 (ucast (a :: 8 word) :: 32 word)) = push_bit 16 (uint a)"
  using sint_pack3 [of a 0 0] by simp

lemma packMIDIMessageIntoInt_short:
  assumes "getRawDataSize m < 4"
  shows "packMIDIMessageIntoInt m
     = Inr (push_bit 16 (uint (rawDataOrZero m 0)) OR push_bit 8 (uint (rawDataOrZero m 1))
            OR uint (rawDataOrZero m 2))"
proof (cases m)
  case (MidiMessage b0 rest)
  show ?thesis
  proof (cases rest)
    case Nil
    then show ?thesis using MidiMessage
      by (simp add: packMIDIMessageIntoInt_def getRawDataSize_def rawDataOrZero_def sint_pack1)
  next
    case (Cons b1 rest1)
    note c1 = Cons
    show ?thesis
    proof (cases rest1)
      case Nil
      then show ?thesis using MidiMessage c1
        by (simp add: packMIDIMessageIntoInt_def getRawDataSize_def rawDataOrZero_def sint_pack2)
    next
      case (Cons b2 rest2)
      then have "rest2 = []" using assms MidiMessage c1 by (simp add: getRawDataSize_def)
      then show ?thesis using MidiMessage c1 Cons
        by (simp add: packMIDIMessageIntoInt_def getRawDataSize_def rawDataOrZero_def
            sint_pack3 or.assoc)
    qed
  qed
qed

text \<open>
  C4. A message of at most three bytes packs to byte 0 shifted left by 16, or-ed with
  byte 1 shifted left by 8, or-ed with byte 2, a missing byte counting as 0; the bytes
  \<open>0x90, 0x40, 0x7F\<close> pack to \<open>0x90407F\<close>; and \<^verbatim>\<open>handleIncomingMidiMessage\<close> leaves the
  venue, with its collector and its buffer of incoming MIDI, as it was when the message
  has four bytes or more.
\<close>

theorem midi_packing_and_long_messages:
  "(getRawDataSize m < 4 \<longrightarrow>
      packMIDIMessageIntoInt m
        = Inr (push_bit 16 (uint (rawDataOrZero m 0)) OR push_bit 8 (uint (rawDataOrZero m 1))
               OR uint (rawDataOrZero m 2)))
   \<and> packMIDIMessageIntoInt (MidiMessage 0x90 [0x40, 0x7F]) = Inr 0x90407F
   \<and> (4 \<le> getRawDataSize m \<longrightarrow> handleIncomingMidiMessage m v = v)"
proof -
  have a: "getRawDataSize m < 4 \<longrightarrow>
      packMIDIMessageIntoInt m
        = Inr (push_bit 16 (uint (rawDataOrZero m 0)) OR push_bit 8 (uint (rawDataOrZero m 1))
               OR uint (rawDataOrZero m 2))"
    using packMIDIMessageIntoInt_short [of m] by simp
  have b: "packMIDIMessageIntoInt (MidiMessage 0x90 [0x40, 0x7F]) = Inr 0x90407F"
    by (simp add: packMIDIMessageIntoInt_def getRawDataSize_def)
  have c: "4 \<le> getRawDataSize m \<longrightarrow> handleIncomingMidiMessage m v = v"
    by (simp add: handleIncomingMidiMessage_def)
  show ?thesis using a b c by simp
qed

theorem midi_packing_and_long_messages_witness:
  "getRawDataSize (MidiMessage 0xC0 [0x05]) < 4
   \<and> packMIDIMessageIntoInt (MidiMessage 0xC0 [0x05]) = Inr 0xC00500
   \<and> 4 \<le> getRawDataSize (MidiMessage 0xF0 [0x7E, 0x7F, 0xF7])
   \<and> handleIncomingMidiMessage (MidiMessage 0xF0 [0x7E, 0x7F, 0xF7]) testVenue = testVenue
   \<and> midiCollector (handleIncomingMidiMessage (MidiMessage 0xC0 [0x05]) testVenue)
       = Some [MidiMessage 0xC0 [0x05]]"
  using midi_packing_and_long_messages [of "MidiMessage 0xC0 [0x05]" testVenue]
        midi_packing_and_long_messages [of "MidiMessage 0xF0 [0x7E, 0x7F, 0xF7]" testVenue]
  by (simp add: getRawDataSize_def rawDataOrZero_def handleIncomingMidiMessage_def testVenue_def)

section \<open>Properties of connecting endpoints\<close>

lemma findEndpoint_None:
  "(findEndpoint es i = None) = (i \<notin> set (map endpointID (convertEndpointList es)))"
  by (induction es) (auto simp: convertEndpointList_def)

lemma connectInputEndpoint_mismatch:
  assumes "findDetailsForID (p_getInputEndpoints P (performer s)) portID = Inr d"
    and "kindMismatch d e"
  shows "connectInputEndpoint P (audioChannelIndex e) (isMIDI e) portID s = Inr (False, s)"
  using assms by (auto simp: connectInputEndpoint_def kindMismatch_def isStream_def isEvent_def)

lemma connectOutputEndpoint_mismatch:
  assumes "findDetailsForID (p_getOutputEndpoints P (performer s)) portID = Inr d"
    and "kindMismatch d e"
  shows "connectOutputEndpoint P (audioChannelIndex e) (isMIDI e) portID s = Inr (False, s)"
  using assms by (auto simp: connectOutputEndpoint_def kindMismatch_def isStream_def isEvent_def)

text \<open>
  C6. \<^verbatim>\<open>connectSessionInputEndpoint\<close> returns false and hands back the session and the
  venue as they were when no device is open, when the venue's endpoint ID is not among
  the published source endpoints, or when the session's endpoint and the venue's endpoint
  do not go together; \<^verbatim>\<open>connectSessionOutputEndpoint\<close> does the same with the sink
  endpoints.
\<close>

theorem connect_fails_without_change:
  "(audioDevice v = None
      \<or> venueID \<notin> set (map endpointID (getSourceEndpoints v))
      \<or> (\<exists>s e d. session = AudioPlayer s \<and> findEndpoint (sourceEndpoints v) venueID = Some e
            \<and> findDetailsForID (p_getInputEndpoints P (performer s)) portID = Inr d
            \<and> kindMismatch d e)
     \<longrightarrow> connectSessionInputEndpoint P session portID venueID v = Inr (False, session, v))
   \<and> (audioDevice v = None
      \<or> venueID \<notin> set (map endpointID (getSinkEndpoints v))
      \<or> (\<exists>s e d. session = AudioPlayer s \<and> findEndpoint (sinkEndpoints v) venueID = Some e
            \<and> findDetailsForID (p_getOutputEndpoints P (performer s)) portID = Inr d
            \<and> kindMismatch d e)
     \<longrightarrow> connectSessionOutputEndpoint P session portID venueID v = Inr (False, session, v))"
proof -
  have i1: "audioDevice v = None \<Longrightarrow>
      connectSessionInputEndpoint P session portID venueID v = Inr (False, session, v)"
    by (simp add: connectSessionInputEndpoint_def)
  have i2: "venueID \<notin> set (map endpointID (getSourceEndpoints v)) \<Longrightarrow>
      connectSessionInputEndpoint P session portID venueID v = Inr (False, session, v)"
    using findEndpoint_None [of "sourceEndpoints v" venueID]
    by (cases session) (auto simp: connectSessionInputEndpoint_def getSourceEndpoints_def)
  have i3: "session = AudioPlayer s \<Longrightarrow> findEndpoint (sourceEndpoints v) venueID = Some e \<Longrightarrow>
      findDetailsForID (p_getInputEndpoints P (performer s)) portID = Inr d \<Longrightarrow>
      kindMismatch d e \<Longrightarrow>
      connectSessionInputEndpoint P session portID venueID v = Inr (False, session, v)" for s e d
    by (simp add: connectSessionInputEndpoint_def connectInputEndpoint_mismatch)
  have o1: "audioDevice v = None \<Longrightarrow>
      connectSessionOutputEndpoint P session portID venueID v = Inr (False, session, v)"
    by (simp add: connectSessionOutputEndpoint_def)
  have o2: "venueID \<notin> set (map endpointID (getSinkEndpoints v)) \<Longrightarrow>
      connectSessionOutputEndpoint P session portID venueID v = Inr (False, session, v)"
    using findEndpoint_None [of "sinkEndpoints v" venueID]
    by (cases session) (auto simp: connectSessionOutputEndpoint_def getSinkEndpoints_def)
  have o3: "session = AudioPlayer s \<Longrightarrow> findEndpoint (sinkEndpoints v) venueID = Some e \<Longrightarrow>
      findDetailsForID (p_getOutputEndpoints P (performer s)) portID = Inr d \<Longrightarrow>
      kindMismatch d e \<Longrightarrow>
      connectSessionOutputEndpoint P session portID venueID v = Inr (False, session, v)" for s e d
    by (simp add: connectSessionOutputEndpoint_def connectOutputEndpoint_mismatch)
  show ?thesis using i1 i2 i3 o1 o2 o3 by blast
qed

theorem connect_fails_without_change_witness:
  "''nowhere'' \<notin> set (map endpointID (getSourceEndpoints testVenue))
   \<and> connectSessionInputEndpoint testPerformer (AudioPlayer (testSession linked))
         ''in'' ''nowhere'' testVenue
       = Inr (False, AudioPlayer (testSession linked), testVenue)
   \<and> connectSessionInputEndpoint testPerformer (AudioPlayer (testSession linked))
         ''in'' ''defaultMidiIn'' testVenue
       = Inr (False, AudioPlayer (testSession linked), testVenue)
   \<and> connectSessionInputEndpoint testPerformer (AudioPlayer (testSession linked))
         ''midi'' ''defaultIn'' testVenue
       = Inr (False, AudioPlayer (testSession linked), testVenue)
   \<and> connectSessionInputEndpoint testPerformer (AudioPlayer (testSession linked))
         ''in'' ''defaultIn'' (testVenue\<lparr>audioDevice := None\<rparr>)
       = Inr (False, AudioPlayer (testSession linked), testVenue\<lparr>audioDevice := None\<rparr>)
   \<and> connectSessionOutputEndpoint testPerformer (AudioPlayer (testSession linked))
         ''out'' ''defaultMidiOut'' testVenue
       = Inr (False, AudioPlayer (testSession linked), testVenue)
   \<and> connectSessionInputEndpoint testPerformer (AudioPlayer (testSession linked))
         ''in'' ''defaultIn'' testVenue
       = Inr (True, AudioPlayer ((testSession linked)\<lparr>audioDeviceInputStream :=
            Some \<lparr>inputEndpoint = ''in'',
                  inputSampleType = \<lparr>primitive = float32, vectorSize = 2\<rparr>,
                  inputStartChannelIndex = 0, inputBufferAvailable = False,
                  inputChannelData =
                    \<lparr>channels = [], numChannels = 0, frameOffset = 0, numFrames = 0\<rparr>,
                  inputBufferOffset = 0, streamValueFrames = 512\<rparr>\<rparr>), testVenue)"
  using connect_fails_without_change
          [of testVenue "''nowhere''" "AudioPlayer (testSession linked)" testPerformer "''in''"]
  by (simp add: connectSessionInputEndpoint_def connectSessionOutputEndpoint_def
      connectInputEndpoint_def connectOutputEndpoint_def newAudioDeviceInputStream_def
      getSingleSampleType_def isStream_def isEvent_def getSourceEndpoints_def
      convertEndpointList_def testVenue_def testSession_def testPerformer_def testInputs_def
      testOutputs_def)

section \<open>Properties of the audio callback\<close>

text \<open>
  C3, as the code has it. As long as no more than 15000 samples have been processed, an
  audio callback calls \<^verbatim>\<open>processBlock\<close> for no session: every session stays as it was,
  the MIDI collected for the block is thrown away, and only the two counters move. Once
  more than 15000 samples have been processed, the callback runs \<^verbatim>\<open>processBlock\<close> for
  the active sessions with the block's input and the collected MIDI.
\<close>

theorem warm_up_runs_no_session:
  "(totalSamplesProcessed v \<le> numWarmUpSamples \<longrightarrow>
      audioDeviceIOCallback P stamp a (v, st)
        = Inr (v\<lparr>audioCallbackCount := audioCallbackCount v + 1,
                 midiCollector := map_option (\<lambda>pending. []) (midiCollector v),
                 incomingMIDI := [],
                 totalSamplesProcessed :=
                   totalSamplesProcessed v + word_of_int (numSamples a)\<rparr>, st))
   \<and> (numWarmUpSamples < totalSamplesProcessed v \<longrightarrow>
      audioDeviceIOCallback P stamp a (v, st)
        = (case processAll P a (clearOutputs (numOutputs a) (numSamples a) (outputData a))
                  (case midiCollector v of
                     Some pending \<Rightarrow> map (\<lambda>m. (m, stamp m)) pending
                   | None \<Rightarrow> incomingMIDI v)
                  (activeSessions v) st of
             Inl x \<Rightarrow> Inl x
           | Inr st1 \<Rightarrow>
               Inr (v\<lparr>audioCallbackCount := audioCallbackCount v + 1,
                       midiCollector := map_option (\<lambda>pending. []) (midiCollector v),
                       incomingMIDI := [],
                       totalSamplesProcessed :=
                         totalSamplesProcessed v + word_of_int (numSamples a)\<rparr>, st1)))"
  by (cases "midiCollector v")
     (auto simp: audioDeviceIOCallback_def Let_def not_less split: sum.splits)

theorem warm_up_runs_no_session_witness:
  "totalSamplesProcessed (playingVenue\<lparr>totalSamplesProcessed := 15000\<rparr>) \<le> numWarmUpSamples
   \<and> audioDeviceIOCallback testPerformer (\<lambda>m. 0) testArgs
         (playingVenue\<lparr>totalSamplesProcessed := 15000\<rparr>, [1 \<mapsto> listeningSession])
       = Inr (playingVenue\<lparr>audioCallbackCount := 1, midiCollector := Some [],
                           totalSamplesProcessed := 15002\<rparr>, [1 \<mapsto> listeningSession])
   \<and> numWarmUpSamples < totalSamplesProcessed (playingVenue\<lparr>totalSamplesProcessed := 15001\<rparr>)
   \<and> map_sum id (\<lambda>r. snd r 1)
         (audioDeviceIOCallback testPerformer (\<lambda>m. 0) testArgs
            (playingVenue\<lparr>totalSamplesProcessed := 15001\<rparr>, [1 \<mapsto> listeningSession]))
       = Inr (Some (listeningSession
                \<lparr>performer := \<lparr>hasProgram = True, isLinkedNow = True, advances = 1\<rparr>,
                 midiEventQueue :=
                   Some \<lparr>queueEndpoint = ''midi'', capacity = 4, fifo = [(0, 0x90407F)]\<rparr>\<rparr>))"
  using warm_up_runs_no_session
          [of "playingVenue\<lparr>totalSamplesProcessed := 15000\<rparr>" testPerformer "\<lambda>m. 0" testArgs
              "[1 \<mapsto> listeningSession]"]
  by (simp add: audioDeviceIOCallback_def processBlock_def packMIDIMessageIntoInt_def
      getRawDataSize_def enqueueEvent_def numWarmUpSamples_def playingVenue_def
      listeningSession_def testVenue_def testSession_def testPerformer_def testArgs_def)

text \<open>
  C3 as stated fails: during the warm-up the sessions do not run. Here a running session
  with a MIDI queue is active and a note-on is waiting; the first callback leaves the
  session untouched, its performer has not advanced, its queue is empty, and the note-on
  is gone.
\<close>

theorem warm_up_session_does_not_run:
  "audioDeviceIOCallback testPerformer (\<lambda>m. 0) testArgs (playingVenue, [1 \<mapsto> listeningSession])
     = Inr (playingVenue\<lparr>audioCallbackCount := 1, midiCollector := Some [],
                         totalSamplesProcessed := 2\<rparr>, [1 \<mapsto> listeningSession])
   \<and> advances (performer listeningSession) = 0"
  by (simp add: audioDeviceIOCallback_def numWarmUpSamples_def playingVenue_def
      listeningSession_def testVenue_def testSession_def testArgs_def)

section \<open>Properties of the watchdog\<close>

lemma checkForStalledProcessor_count:
  "checkForStalledProcessor now v = Inr v1 \<Longrightarrow> audioCallbackCount v1 = audioCallbackCount v"
  by (auto simp: checkForStalledProcessor_def Let_def split: if_splits)

lemma audioDeviceIOCallback_count:
  "audioDeviceIOCallback P stamp a (v, st) = Inr (v1, st1) \<Longrightarrow>
     audioCallbackCount v1 = audioCallbackCount v + 1"
  by (auto simp: audioDeviceIOCallback_def Let_def split: option.splits sum.splits if_splits)

lemma deviceEvent_count:
  "deviceEvent P e (v, st) = Inr (v1, st1) \<Longrightarrow>
     audioCallbackCount v1 = audioCallbackCount v + (if isAudioCallback e then 1 else 0)"
proof (cases e)
  case (AudioCallback stamp a)
  assume "deviceEvent P e (v, st) = Inr (v1, st1)"
  then show ?thesis using AudioCallback audioDeviceIOCallback_count [of P stamp a v st v1 st1]
    by simp
next
  case (TimerTick now)
  assume "deviceEvent P e (v, st) = Inr (v1, st1)"
  then show ?thesis using TimerTick checkForStalledProcessor_count [of now v v1]
    by (auto simp: timerCallback_def split: sum.splits)
qed

text \<open>The counter is the number of audio callbacks since the device started, modulo \<open>2^32\<close>.\<close>

lemma runEvents_count:
  "runEvents P es (v, st) = Inr (v1, st1) \<Longrightarrow>
     audioCallbackCount v1 = audioCallbackCount v + of_nat (callbacksIn es)"
proof (induction es arbitrary: v st)
  case Nil
  then show ?case by (simp add: callbacksIn_def)
next
  case (Cons e es)
  from Cons.prems obtain v2 st2 where
    step: "deviceEvent P e (v, st) = Inr (v2, st2)" and
    rest: "runEvents P es (v2, st2) = Inr (v1, st1)"
    by (auto split: sum.splits)
  have "audioCallbackCount v1 = audioCallbackCount v2 + of_nat (callbacksIn es)"
    using Cons.IH [OF rest] .
  then show ?case using deviceEvent_count [OF step] by (simp add: callbacksIn_def)
qed

lemma runEvents_append:
  "runEvents P (es @ fs) vs =
     (case runEvents P es vs of Inl x \<Rightarrow> Inl x | Inr vs1 \<Rightarrow> runEvents P fs vs1)"
  by (induction es arbitrary: vs) (auto split: sum.splits)

lemma audioDeviceAboutToStart_count:
  "audioDeviceAboutToStart device vs = Inr (v0, st0) \<Longrightarrow>
     audioCallbackCount v0 = 0 \<and> lastCallbackCount v0 = 0"
  by (cases vs) (auto simp: audioDeviceAboutToStart_def Let_def split: sum.splits)

lemma count_nonzero:
  assumes "n < 2 ^ 32"
  shows "((of_nat n :: 32 word) \<noteq> 0) = (0 < n)"
proof
  assume "(of_nat n :: 32 word) \<noteq> 0"
  then show "0 < n" by (rule of_nat_gt_0)
next
  assume "0 < n"
  then show "(of_nat n :: 32 word) \<noteq> 0"
    using assms of_nat_neq_0 [of n, where 'a = 32] by simp
qed

lemma checkForStalledProcessor_fires:
  "(checkForStalledProcessor now v = Inl ProcessTerminated)
     = (audioCallbackCount v \<noteq> 0 \<and> lastCallbackCount v = audioCallbackCount v
        \<and> lastCallbackCountChange v + 2000 < now)"
  by (auto simp: checkForStalledProcessor_def Let_def)

text \<open>
  One check after a run. Take any run of audio callbacks and timer ticks after the device
  has started, with fewer than \<open>2^32\<close> audio callbacks in it. The next timer tick, at
  time \<open>now\<close>, terminates the process exactly when there has been at least one audio
  callback, \<open>lastCallbackCount\<close> equals the counter, and \<open>now\<close> is more than 2000
  milliseconds after \<open>lastCallbackCountChange\<close>. When the tick terminates the process the
  run is over: whatever events follow, none is executed.
\<close>

lemma watchdog_check_after_run:
  assumes "audioDeviceAboutToStart device vs = Inr vs0"
    and "runEvents P es vs0 = Inr (v, st)"
    and "callbacksIn es < 2 ^ 32"
  shows "(timerCallback now v = Inl ProcessTerminated)
           = (0 < callbacksIn es \<and> lastCallbackCount v = audioCallbackCount v
              \<and> lastCallbackCountChange v + 2000 < now)
         \<and> (timerCallback now v = Inl ProcessTerminated \<longrightarrow>
              runEvents P (es @ TimerTick now # later) vs0 = Inl ProcessTerminated)"
proof -
  obtain v0 st0 where vs0: "vs0 = (v0, st0)" by (cases vs0)
  have "audioCallbackCount v0 = 0"
    using assms(1) audioDeviceAboutToStart_count [of device vs v0 st0] vs0 by simp
  then have "audioCallbackCount v = of_nat (callbacksIn es)"
    using runEvents_count [of P es v0 st0 v st] assms(2) vs0 by simp
  then have nz: "(audioCallbackCount v \<noteq> 0) = (0 < callbacksIn es)"
    using count_nonzero [OF assms(3)] by simp
  have a: "(timerCallback now v = Inl ProcessTerminated)
           = (0 < callbacksIn es \<and> lastCallbackCount v = audioCallbackCount v
              \<and> lastCallbackCountChange v + 2000 < now)"
    using nz by (simp add: timerCallback_def checkForStalledProcessor_fires)
  have b: "timerCallback now v = Inl ProcessTerminated \<longrightarrow>
              runEvents P (es @ TimerTick now # later) vs0 = Inl ProcessTerminated"
    using assms(2) by (simp add: runEvents_append)
  show ?thesis using a b by simp
qed

text \<open>Audio callbacks while no session is active and no MIDI arrives.\<close>

lemma idle_callbacks:
  assumes "activeSessions v = []" and "midiCollector v = Some []" and "incomingMIDI v = []"
  shows "runEvents P (replicate n (AudioCallback stamp a)) (v, st)
     = Inr (v\<lparr>audioCallbackCount := audioCallbackCount v + of_nat n,
              totalSamplesProcessed :=
                totalSamplesProcessed v + of_nat n * word_of_int (numSamples a)\<rparr>, st)"
  using assms
proof (induction n arbitrary: v)
  case 0
  then show ?case by simp
next
  case (Suc n)
  let ?v1 = "v\<lparr>audioCallbackCount := audioCallbackCount v + 1,
               totalSamplesProcessed := totalSamplesProcessed v + word_of_int (numSamples a)\<rparr>"
  have step: "audioDeviceIOCallback P stamp a (v, st) = Inr (?v1, st)"
    using Suc.prems by (simp add: audioDeviceIOCallback_def Let_def)
  have "runEvents P (replicate n (AudioCallback stamp a)) (?v1, st)
     = Inr (?v1\<lparr>audioCallbackCount := audioCallbackCount ?v1 + of_nat n,
              totalSamplesProcessed :=
                totalSamplesProcessed ?v1 + of_nat n * word_of_int (numSamples a)\<rparr>, st)"
    using Suc.prems by (intro Suc.IH) simp_all
  then show ?case using step by (simp add: algebra_simps)
qed

text \<open>
  C5 holds of the code until the 32-bit counter wraps, and fails there. The device of the
  test venue has started and no session is active. After one audio callback the watchdog
  looks at 1000 ms, sees the counter change, looks again at 3001 ms and terminates the
  process; a look at 3000 ms does not, and neither does one at 3001 ms when a second
  callback has run in between. After \<open>2^32\<close> audio callbacks the counter has advanced
  and reads 0: the callbacks stop, the watchdog looks at 1000 ms and at 9000 ms, and the
  process lives on, although the counter has advanced and then stood still for 8 seconds.
\<close>

theorem watchdog_misses_stall_after_counter_wraps:
  "runEvents testPerformer
       [AudioCallback (\<lambda>m. 0) testArgs, TimerTick 1000, TimerTick 3001, TimerTick 3334]
       (testVenue, Map.empty)
     = Inl ProcessTerminated
   \<and> runEvents testPerformer
       [AudioCallback (\<lambda>m. 0) testArgs, TimerTick 1000, TimerTick 3000]
       (testVenue, Map.empty)
     = Inr (testVenue\<lparr>audioCallbackCount := 1, totalSamplesProcessed := 2,
                      lastCallbackCount := 1, lastCallbackCountChange := 1000\<rparr>, Map.empty)
   \<and> runEvents testPerformer
       [AudioCallback (\<lambda>m. 0) testArgs, TimerTick 1000, AudioCallback (\<lambda>m. 0) testArgs,
        TimerTick 3001]
       (testVenue, Map.empty)
     = Inr (testVenue\<lparr>audioCallbackCount := 2, totalSamplesProcessed := 4,
                      lastCallbackCount := 2, lastCallbackCountChange := 3001\<rparr>, Map.empty)
   \<and> 0 < callbacksIn (replicate (2 ^ 32) (AudioCallback (\<lambda>m. 0) testArgs))
   \<and> runEvents testPerformer
       (replicate (2 ^ 32) (AudioCallback (\<lambda>m. 0) testArgs) @ [TimerTick 1000, TimerTick 9000])
       (testVenue, Map.empty)
     = Inr (testVenue\<lparr>totalSamplesProcessed := 2 ^ 33\<rparr>, Map.empty)"
proof -
  have fires: "runEvents testPerformer
       [AudioCallback (\<lambda>m. 0) testArgs, TimerTick 1000, TimerTick 3001, TimerTick 3334]
       (testVenue, Map.empty)
     = Inl ProcessTerminated"
    by (simp add: audioDeviceIOCallback_def timerCallback_def checkForStalledProcessor_def
        numWarmUpSamples_def testVenue_def testArgs_def)
  have early: "runEvents testPerformer
       [AudioCallback (\<lambda>m. 0) testArgs, TimerTick 1000, TimerTick 3000]
       (testVenue, Map.empty)
     = Inr (testVenue\<lparr>audioCallbackCount := 1, totalSamplesProcessed := 2,
                      lastCallbackCount := 1, lastCallbackCountChange := 1000\<rparr>, Map.empty)"
    by (simp add: audioDeviceIOCallback_def timerCallback_def checkForStalledProcessor_def
        numWarmUpSamples_def testVenue_def testArgs_def)
  have alive: "runEvents testPerformer
       [AudioCallback (\<lambda>m. 0) testArgs, TimerTick 1000, AudioCallback (\<lambda>m. 0) testArgs,
        TimerTick 3001]
       (testVenue, Map.empty)
     = Inr (testVenue\<lparr>audioCallbackCount := 2, totalSamplesProcessed := 4,
                      lastCallbackCount := 2, lastCallbackCountChange := 3001\<rparr>, Map.empty)"
    by (simp add: audioDeviceIOCallback_def timerCallback_def checkForStalledProcessor_def
        numWarmUpSamples_def testVenue_def testArgs_def)
  have c: "callbacksIn (replicate n (AudioCallback (\<lambda>m. 0) testArgs)) = n" for n
    by (simp add: callbacksIn_def)
  have tv: "activeSessions testVenue = []" "midiCollector testVenue = Some []"
    "incomingMIDI testVenue = []" "audioCallbackCount testVenue = 0"
    "totalSamplesProcessed testVenue = 0" "lastCallbackCount testVenue = 0"
    by (simp_all add: testVenue_def)
  have w: "(of_nat (2 ^ 32) :: 32 word) = 0" by simp
  have t: "(of_nat (2 ^ 32) * word_of_int (numSamples testArgs) :: 64 word) = 2 ^ 33"
    by (simp add: testArgs_def)
  have r: "runEvents testPerformer (replicate (2 ^ 32) (AudioCallback (\<lambda>m. 0) testArgs))
             (testVenue, Map.empty)
           = Inr (testVenue\<lparr>totalSamplesProcessed := 2 ^ 33\<rparr>, Map.empty)"
    unfolding idle_callbacks [OF tv(1) tv(2) tv(3)] tv(4) tv(5) w t
    by (simp add: testVenue_def)
  have ticks: "runEvents testPerformer [TimerTick 1000, TimerTick 9000]
                 (testVenue\<lparr>totalSamplesProcessed := 2 ^ 33\<rparr>, Map.empty)
               = Inr (testVenue\<lparr>totalSamplesProcessed := 2 ^ 33\<rparr>, Map.empty)"
    by (simp add: timerCallback_def checkForStalledProcessor_def testVenue_def)
  have wrapped: "0 < callbacksIn (replicate (2 ^ 32) (AudioCallback (\<lambda>m. 0) testArgs))
   \<and> runEvents testPerformer
       (replicate (2 ^ 32) (AudioCallback (\<lambda>m. 0) testArgs) @ [TimerTick 1000, TimerTick 9000])
       (testVenue, Map.empty)
     = Inr (testVenue\<lparr>totalSamplesProcessed := 2 ^ 33\<rparr>, Map.empty)"
    unfolding runEvents_append r c using ticks by simp
  show ?thesis using fires early alive wrapped by blast
qed

text \<open>
  The test venue is the venue as \<^verbatim>\<open>audioDeviceAboutToStart\<close> leaves it: both counters
  are 0 and the collector is empty.
\<close>

lemma testVenue_just_started:
  "audioDeviceAboutToStart
       \<lparr>activeInputChannels = 2, activeOutputChannels = 2, currentSampleRate = Finite 44100,
        currentBufferSizeSamples = 512\<rparr> (testVenue, Map.empty :: TestPerformer store)
     = Inr (testVenue, Map.empty)"
  by (simp add: audioDeviceAboutToStart_def testVenue_def)

section \<open>Properties of the constructor\<close>

lemma sampleRate_check:
  "x \<noteq> NaN \<Longrightarrow>
     (ieee_less x (Finite 1000) \<or> ieee_less (Finite (48000 * 8)) x) = (\<not> sampleRateInRange x)"
  by (cases x) auto

text \<open>
  What the constructor does with every requirement. It calls the device's \<^verbatim>\<open>open\<close> once:
  with the requested block size when it lies in 1 to 2048 and with 0 otherwise, whatever
  the rate is; with the requested rate when it lies in 1000 to 384000, with 0 when it is
  another number or an infinity, and with the NaN when it is a NaN. The outcome is decided
  by what \<^verbatim>\<open>open\<close> answers to that request, and the venue keeps the requirements with
  the same replacements.
\<close>

lemma constructor_open_request:
  "AudioPlayerVenue_new (Some openDevice) bela r =
     (case openDevice
             \<lparr>requestedInputs = numInputChannels r,
              requestedOutputs = numOutputChannels r,
              requestedSampleRate =
                (if sampleRate r = NaN then NaN
                 else if sampleRateInRange (sampleRate r) then sampleRate r else Finite 0),
              requestedBlockSize =
                (if blockSizeInRange (blockSize r) then blockSize r else 0)\<rparr> of
        None \<Rightarrow> Inl AssertionFailed
      | Some device \<Rightarrow> AudioPlayerVenue_new (Some (\<lambda>q. Some device)) bela r)
   \<and> (\<forall>v. AudioPlayerVenue_new (Some openDevice) bela r = Inr v \<longrightarrow>
          requirements v =
            r\<lparr>sampleRate :=
                (if sampleRate r = NaN then NaN
                 else if sampleRateInRange (sampleRate r) then sampleRate r else Finite 0),
              blockSize := (if blockSizeInRange (blockSize r) then blockSize r else 0)\<rparr>)"
proof (cases "sampleRate r = NaN")
  case True
  then show ?thesis
    by (auto simp: AudioPlayerVenue_new_def openAudioDevice_def Let_def blockSizeInRange_def
        split: option.splits)
next
  case False
  then show ?thesis using sampleRate_check [OF False]
    by (auto simp: AudioPlayerVenue_new_def openAudioDevice_def Let_def blockSizeInRange_def
        split: option.splits)
qed

text \<open>
  C10 holds of the code for every block size and for every rate that is a number or an
  infinity, and fails for a NaN. The test device opens at the rate and the block size it
  is asked for. A rate of 500 and a block size of 4096 reach it as 0 and 0, and so do an
  infinite rate and a block size of -1; the rate 44100 and the block size 512 reach it as
  they are. A NaN lies outside 1000 to 384000, both comparisons of the constructor are
  false for it, and it reaches \<^verbatim>\<open>open\<close> as a NaN, next to a block size that has been
  replaced.
\<close>

theorem constructor_passes_nan_to_open:
  "AudioPlayerVenue_new testDriver False
       (testRequirements\<lparr>sampleRate := Finite 500, blockSize := 4096\<rparr>)
     = Inr (testVenue
             \<lparr>requirements := testRequirements\<lparr>sampleRate := Finite 0, blockSize := 0\<rparr>,
              audioDevice := Some \<lparr>activeInputChannels = 2, activeOutputChannels = 2,
                                   currentSampleRate = Finite 0,
                                   currentBufferSizeSamples = 0\<rparr>\<rparr>)
   \<and> AudioPlayerVenue_new testDriver False
       (testRequirements\<lparr>sampleRate := PosInf, blockSize := - 1\<rparr>)
     = Inr (testVenue
             \<lparr>requirements := testRequirements\<lparr>sampleRate := Finite 0, blockSize := 0\<rparr>,
              audioDevice := Some \<lparr>activeInputChannels = 2, activeOutputChannels = 2,
                                   currentSampleRate = Finite 0,
                                   currentBufferSizeSamples = 0\<rparr>\<rparr>)
   \<and> AudioPlayerVenue_new testDriver False testRequirements = Inr testVenue
   \<and> sampleRateInRange NaN = False
   \<and> AudioPlayerVenue_new testDriver False
       (testRequirements\<lparr>sampleRate := NaN, blockSize := 4096\<rparr>)
     = Inr (testVenue
             \<lparr>requirements := testRequirements\<lparr>sampleRate := NaN, blockSize := 0\<rparr>,
              audioDevice := Some \<lparr>activeInputChannels = 2, activeOutputChannels = 2,
                                   currentSampleRate = NaN,
                                   currentBufferSizeSamples = 0\<rparr>\<rparr>)"
  by (simp add: AudioPlayerVenue_new_def testDriver_def testRequirements_def
      openAudioDevice_def addEndpoint_def getVectorType_def testVenue_def)

end
